theory Spec2Isabelle
  imports Complex_Main "HOL-Library.Multiset"
begin

text \<open>
  A model of the training-session orchestration of
  \<open>python/interpret-core/interpret/glassbox/ebm/internal.py\<close>: the classes
  \<open>NativeEBMBooster\<close> and \<open>NativeEBMInteraction\<close> and the two entry points of
  \<open>NativeHelper\<close>.

  \<^item> A method of a session object takes the object and returns it updated, beside the
    value returned or the exception raised: a field written before a \<open>raise\<close> stays
    written.
  \<^item> The native library is a parameter (an \<open>engine\<close>); the object records the native calls
    made on its handle.
  \<^item> Floats are reals, with infinity added where the source starts from \<open>np.inf\<close>; there
    is no rounding and no NaN. Bin counts and array sizes are natural numbers; indexes are
    Python integers.
  \<^item> Logging is left out.
\<close>

section \<open>Python and numpy values used by \<open>interpret/glassbox/ebm/internal.py\<close>\<close>

text \<open>
  Exceptions are values: every \<open>raise\<close> of the source is an \<open>Inl\<close> of this type.
  \<open>Native._get_native_exception(error_code, native_function)\<close> builds a plain
  \<open>Exception\<close> from the return code and the name of the native function.
\<close>

datatype error =
    ValueError string
  | RuntimeError string
  | AttributeError string
  | IndexError
  | NativeException int string

definition get_native_exception :: "int \<Rightarrow> string \<Rightarrow> error" where
  "get_native_exception error_code native_function = NativeException error_code native_function"

text \<open>
  A numpy array is its shape and its C-contiguous buffer (row-major, last axis fastest).
  The element type is a parameter: the session only moves elements around.
\<close>

record 'a ndarray =
  shape :: "nat list"
  buffer :: "'a list"

definition ndim :: "'a ndarray \<Rightarrow> nat" where
  "ndim a = length (shape a)"

text \<open>\<open>len(a)\<close> of an array that has at least one axis (the source checks \<open>ndim\<close> first).\<close>

definition len :: "'a ndarray \<Rightarrow> nat" where
  "len a = (case shape a of [] \<Rightarrow> 0 | n # _ \<Rightarrow> n)"

definition np_zeros :: "nat \<Rightarrow> real ndarray" where
  "np_zeros n = \<lparr>shape = [n], buffer = replicate n 0\<rparr>"

text \<open>
  \<open>xs[i]\<close> on a Python list, a tuple or a one-dimensional numpy array: an index in
  \<open>0 .. len-1\<close> reads from the front, one in \<open>-len .. -1\<close> from the end, any other
  raises IndexError.
\<close>

definition getitem :: "'a list \<Rightarrow> int \<Rightarrow> error + 'a" where
  "getitem xs i =
     (if 0 \<le> i \<and> i < int (length xs) then Inr (xs ! nat i)
      else if - int (length xs) \<le> i \<and> i < 0 then Inr (xs ! nat (int (length xs) + i))
      else Inl IndexError)"

text \<open>
  \<open>np.ascontiguousarray(np.transpose(a, (1, 0)))\<close>: element \<open>[j, i]\<close> of the result is
  element \<open>[i, j]\<close> of \<open>a\<close>; numpy raises ValueError unless \<open>a\<close> has exactly two axes.
  At position \<open>k = j * s0 + i\<close> of the new buffer stands position \<open>i * s1 + j\<close> of the old.
\<close>

definition transpose_1_0 :: "'a ndarray \<Rightarrow> error + 'a ndarray" where
  "transpose_1_0 a =
     (case shape a of
        [s0, s1] \<Rightarrow>
          Inr \<lparr>shape = [s1, s0],
               buffer = map (\<lambda>k. buffer a ! ((k mod s0) * s1 + k div s0)) [0..<s1 * s0]\<rparr>
      | _ \<Rightarrow> Inl (ValueError ''axes do not match array''))"

text \<open>
  \<open>np.ascontiguousarray(np.transpose(a, (1, 0, 2)))\<close>: element \<open>[j, i, c]\<close> of the result
  is element \<open>[i, j, c]\<close> of \<open>a\<close>; ValueError unless \<open>a\<close> has exactly three axes.
\<close>

definition transpose_1_0_2 :: "'a ndarray \<Rightarrow> error + 'a ndarray" where
  "transpose_1_0_2 a =
     (case shape a of
        [s0, s1, s2] \<Rightarrow>
          Inr \<lparr>shape = [s1, s0, s2],
               buffer = map (\<lambda>k. buffer a !
                               ((((k div s2) mod s0) * s1 + (k div s2) div s0) * s2 + k mod s2))
                          [0..<s1 * s0 * s2]\<rparr>
      | _ \<Rightarrow> Inl (ValueError ''axes do not match array''))"

text \<open>
  Python floats that can be \<open>np.inf\<close>: the metrics of the boosting loop start at infinity.
  Finite floats are modelled as reals (no rounding, no NaN).
\<close>

datatype pyfloat = Float real | Inf

fun float_lt :: "pyfloat \<Rightarrow> pyfloat \<Rightarrow> bool" where
  "float_lt (Float a) (Float b) = (a < b)"
| "float_lt (Float a) Inf = True"
| "float_lt Inf b = False"

fun float_add :: "pyfloat \<Rightarrow> real \<Rightarrow> pyfloat" where
  "float_add (Float a) t = Float (a + t)"
| "float_add Inf t = Inf"

text \<open>Python's \<open>min(a, b)\<close> returns \<open>a\<close> unless \<open>b < a\<close>.\<close>

definition py_min :: "pyfloat \<Rightarrow> pyfloat \<Rightarrow> pyfloat" where
  "py_min a b = (if float_lt b a then b else a)"


section \<open>class Native\<close>

definition get_count_scores_c :: "int \<Rightarrow> int" where
  "get_count_scores_c n_classes = (if n_classes \<le> 2 then 1 else n_classes)"

text \<open>\<open>Native._convert_feature_groups_to_c\<close>: the sizes of the groups, and their members in order.\<close>

definition convert_feature_groups_to_c :: "int list list \<Rightarrow> int list \<times> int list" where
  "convert_feature_groups_to_c feature_groups =
     (map (\<lambda>features_in_group. int (length features_in_group)) feature_groups,
      concat feature_groups)"

section \<open>The native engine\<close>

text \<open>
  The C library behind \<open>self._native._unsafe\<close> is not part of the source file: only its call
  contract is (the \<open>argtypes\<close> of each function). A call is recorded with the arguments the
  Python code passes, the handle apart: a history of calls is the history of one handle.
\<close>

datatype native_call =
    CreateClassificationBooster
      int int int "int list" "nat list" int "int list" "int list"
      int "int ndarray" "real ndarray" "real ndarray" "real ndarray"
      int "int ndarray" "real ndarray" "real ndarray" "real ndarray"
      int "real list option"
  | CreateRegressionBooster
      int int "int list" "nat list" int "int list" "int list"
      int "int ndarray" "real ndarray" "real ndarray" "real ndarray"
      int "int ndarray" "real ndarray" "real ndarray" "real ndarray"
      int "real list option"
  | FreeBooster
  | GenerateModelUpdate int int real int "int list"
  | ApplyModelUpdate
  | GetBestModelFeatureGroup int
  | GetCurrentModelFeatureGroup int
  | GetModelUpdateExpanded
  | SetModelUpdateExpanded int "real list"
  | CreateClassificationInteractionDetector
      int int "int list" "nat list"
      int "int ndarray" "real ndarray" "real ndarray" "real ndarray" "real list option"
  | CreateRegressionInteractionDetector
      int "int list" "nat list"
      int "int ndarray" "real ndarray" "real ndarray" "real ndarray" "real list option"
  | CalculateInteractionScore int "int list" int
  | FreeInteractionDetector

text \<open>
  What a native function gives back: its return code, and what it writes through its
  output pointers (a handle, a double, or the content of a tensor buffer).
\<close>

record native_reply =
  return_code :: int
  out_handle :: "int option"
  out_double :: real
  out_tensor :: "real list"

text \<open>
  The engine is a parameter of the model: any function from the calls made so far on a
  handle, and the call being made, to the reply.
\<close>

type_synonym engine = "native_call list \<Rightarrow> native_call \<Rightarrow> native_reply"

section \<open>class NativeEBMBooster\<close>

text \<open>
  The fields of the session object, and \<open>self_calls\<close>: the native calls made so far on
  its handle, oldest first (the session's effect on the engine).
\<close>

record booster =
  self_booster_handle :: "int option"
  self_feature_group_index :: int
  self_model_type :: string
  self_n_classes :: int
  self_features_bin_count :: "nat list"
  self_feature_groups :: "int list list"
  self_calls :: "native_call list"

text \<open>\<open>self._native._unsafe.F(self._booster_handle, ...)\<close>: the reply, and the call recorded.\<close>

definition unsafe :: "engine \<Rightarrow> booster \<Rightarrow> native_call \<Rightarrow> native_reply \<times> booster" where
  "unsafe E self c = (E (self_calls self) c, self\<lparr>self_calls := self_calls self @ [c]\<rparr>)"

text \<open>
  The handling of one prior score tensor in a constructor (\<open>scores_train\<close> and
  \<open>scores_val\<close> in \<open>NativeEBMBooster.__init__\<close>, \<open>scores\<close> in
  \<open>NativeEBMInteraction.__init__\<close>: the same code three times, with the names in the
  messages changed).
\<close>

definition init_scores ::
  "string \<Rightarrow> string \<Rightarrow> int \<Rightarrow> real ndarray \<Rightarrow> real ndarray option \<Rightarrow> error + real ndarray" where
  "init_scores scores_name y_name n_scores y scores =
     (case scores of
        None \<Rightarrow> Inr (np_zeros (nat (int (len y) * n_scores)))
      | Some scores \<Rightarrow>
          (case getitem (shape scores) 0 of
             Inl e \<Rightarrow> Inl e
           | Inr n_samples \<Rightarrow>
               if n_samples \<noteq> len y then
                 Inl (ValueError (scores_name @ '' does not have the same number of samples as '' @ y_name))
               else if n_scores = 1 then
                 (if ndim scores \<noteq> 1 then
                    Inl (ValueError (scores_name @ '' should have exactly 1 dimensions for regression or binary classification''))
                  else Inr scores)
               else if ndim scores \<noteq> 2 then
                 Inl (ValueError (scores_name @ '' should have exactly 2 dimensions for multiclass''))
               else if int (shape scores ! 1) \<noteq> n_scores then
                 Inl (ValueError (scores_name @ '' does not have the same number of logit scores as n_scores''))
               else Inr scores))"

text \<open>
  The checks of \<open>NativeEBMBooster.__init__\<close> before the library is loaded, in the source's
  order (the three \<open>isinstance\<close> checks hold by the types of the model).
\<close>

definition check_booster_inputs ::
  "int list \<Rightarrow> nat list \<Rightarrow> int ndarray \<Rightarrow> real ndarray \<Rightarrow> real ndarray \<Rightarrow>
   int ndarray \<Rightarrow> real ndarray \<Rightarrow> real ndarray \<Rightarrow> error option" where
  "check_booster_inputs features_categorical features_bin_count X_train y_train w_train X_val y_val w_val =
     (if ndim X_train \<noteq> 2 then Some (ValueError ''X_train should have exactly 2 dimensions'')
      else if ndim y_train \<noteq> 1 then Some (ValueError ''y_train should have exactly 1 dimension'')
      else if shape X_train ! 0 \<noteq> length features_categorical then
        Some (ValueError ''X_train does not have the same number of items as the features_categorical array'')
      else if shape X_train ! 0 \<noteq> length features_bin_count then
        Some (ValueError ''X_train does not have the same number of items as the features_bin_count array'')
      else if shape X_train ! 1 \<noteq> len y_train then
        Some (ValueError ''X_train does not have the same number of samples as y_train'')
      else if ndim X_val \<noteq> 2 then Some (ValueError ''X_val should have exactly 2 dimensions'')
      else if ndim y_val \<noteq> 1 then Some (ValueError ''y_val should have exactly 1 dimension'')
      else if shape X_val ! 0 \<noteq> shape X_train ! 0 then
        Some (ValueError ''X_val does not have the same number of features as the X_train array'')
      else if shape X_val ! 1 \<noteq> len y_val then
        Some (ValueError ''X_val does not have the same number of samples as y_val'')
      else if shape w_train \<noteq> shape y_train \<or> shape w_val \<noteq> shape y_val then
        Some (ValueError ''Sample weight shape must be equal to training label shape.'')
      else None)"

text \<open>
  The object before \<open>__init__\<close> has stored its arguments: \<open>_booster_handle = None\<close> and
  \<open>_feature_group_index = -1\<close> are set first, the other fields are not set yet.
\<close>

definition new_booster :: booster where
  "new_booster =
     \<lparr>self_booster_handle = None, self_feature_group_index = - 1, self_model_type = [],
      self_n_classes = 0, self_features_bin_count = [], self_feature_groups = [],
      self_calls = []\<rparr>"

text \<open>
  \<open>NativeEBMBooster.__init__\<close>. The result is the exception raised, if any, and the object
  as the constructor leaves it.
\<close>

definition NativeEBMBooster_init ::
  "engine \<Rightarrow> string \<Rightarrow> int \<Rightarrow> int list \<Rightarrow> nat list \<Rightarrow> int list list \<Rightarrow>
   int ndarray \<Rightarrow> real ndarray \<Rightarrow> real ndarray \<Rightarrow> real ndarray option \<Rightarrow>
   int ndarray \<Rightarrow> real ndarray \<Rightarrow> real ndarray \<Rightarrow> real ndarray option \<Rightarrow>
   int \<Rightarrow> int \<Rightarrow> real list option \<Rightarrow> (error + unit) \<times> booster" where
  "NativeEBMBooster_init E model_type n_classes features_categorical features_bin_count
     feature_groups X_train y_train w_train scores_train X_val y_val w_val scores_val
     n_inner_bags random_state optional_temp_params =
     (let self = new_booster in
      case check_booster_inputs features_categorical features_bin_count
             X_train y_train w_train X_val y_val w_val of
        Some e \<Rightarrow> (Inl e, self)
      | None \<Rightarrow>
          (let self = self\<lparr>self_model_type := model_type, self_n_classes := n_classes,
                           self_features_bin_count := features_bin_count,
                           self_feature_groups := feature_groups\<rparr>;
               (feature_groups_feature_count, feature_groups_feature_indexes) =
                  convert_feature_groups_to_c feature_groups;
               n_scores = get_count_scores_c n_classes
           in case init_scores ''scores_train'' ''y_train'' n_scores y_train scores_train of
                Inl e \<Rightarrow> (Inl e, self)
              | Inr scores_train \<Rightarrow>
                  (case init_scores ''scores_val'' ''y_val'' n_scores y_val scores_val of
                     Inl e \<Rightarrow> (Inl e, self)
                   | Inr scores_val \<Rightarrow>
                       if model_type = ''classification'' then
                         (let (r, self) = unsafe E self
                                (CreateClassificationBooster random_state n_classes
                                   (int (length features_bin_count)) features_categorical
                                   features_bin_count (int (length feature_groups_feature_count))
                                   feature_groups_feature_count feature_groups_feature_indexes
                                   (int (len y_train)) X_train y_train w_train scores_train
                                   (int (len y_val)) X_val y_val w_val scores_val
                                   n_inner_bags optional_temp_params)
                          in if return_code r \<noteq> 0 then
                               (Inl (get_native_exception (return_code r) ''CreateClassificationBooster''), self)
                             else (Inr (), self\<lparr>self_booster_handle := out_handle r\<rparr>))
                       else if model_type = ''regression'' then
                         (let (r, self) = unsafe E self
                                (CreateRegressionBooster random_state
                                   (int (length features_bin_count)) features_categorical
                                   features_bin_count (int (length feature_groups_feature_count))
                                   feature_groups_feature_count feature_groups_feature_indexes
                                   (int (len y_train)) X_train y_train w_train scores_train
                                   (int (len y_val)) X_val y_val w_val scores_val
                                   n_inner_bags optional_temp_params)
                          in if return_code r \<noteq> 0 then
                               (Inl (get_native_exception (return_code r) ''CreateRegressionBooster''), self)
                             else (Inr (), self\<lparr>self_booster_handle := out_handle r\<rparr>))
                       else (Inl (AttributeError ''Unrecognized model_type''), self))))"

text \<open>\<open>close\<close>: \<open>FreeBooster\<close> returns nothing.\<close>

definition close :: "engine \<Rightarrow> booster \<Rightarrow> booster" where
  "close E self = snd (unsafe E self FreeBooster)"

definition generate_model_update ::
  "engine \<Rightarrow> booster \<Rightarrow> int \<Rightarrow> int \<Rightarrow> real \<Rightarrow> int \<Rightarrow> int \<Rightarrow> (error + real) \<times> booster" where
  "generate_model_update E self feature_group_index generate_update_options learning_rate
     min_samples_leaf max_leaves =
     (let self = self\<lparr>self_feature_group_index := - 1\<rparr> in
      case getitem (self_feature_groups self) feature_group_index of
        Inl e \<Rightarrow> (Inl e, self)
      | Inr feature_indexes \<Rightarrow>
          (let n_features = length feature_indexes;
               max_leaves_arr = replicate n_features max_leaves;
               (r, self) = unsafe E self
                  (GenerateModelUpdate feature_group_index generate_update_options
                     learning_rate min_samples_leaf max_leaves_arr)
           in if return_code r \<noteq> 0 then
                (Inl (get_native_exception (return_code r) ''GenerateModelUpdate''), self)
              else (Inr (out_double r), self\<lparr>self_feature_group_index := feature_group_index\<rparr>)))"

definition apply_model_update :: "engine \<Rightarrow> booster \<Rightarrow> (error + real) \<times> booster" where
  "apply_model_update E self =
     (let self = self\<lparr>self_feature_group_index := - 1\<rparr>;
          (r, self) = unsafe E self ApplyModelUpdate
      in if return_code r \<noteq> 0 then
           (Inl (get_native_exception (return_code r) ''ApplyModelUpdate''), self)
         else (Inr (out_double r), self))"

text \<open>
  The loop of \<open>_get_feature_group_shape\<close> over the member features of the group:
  \<open>n_bins = self._features_bin_count[feature_idx]; dimensions.append(n_bins)\<close>.
  Bin counts are counts (\<open>nat\<close>); feature indexes are Python integers.
\<close>

fun append_bin_counts :: "nat list \<Rightarrow> int list \<Rightarrow> nat list \<Rightarrow> error + nat list" where
  "append_bin_counts features_bin_count [] dimensions = Inr dimensions"
| "append_bin_counts features_bin_count (feature_idx # feature_indexes) dimensions =
     (case getitem features_bin_count feature_idx of
        Inl e \<Rightarrow> Inl e
      | Inr n_bins \<Rightarrow>
          append_bin_counts features_bin_count feature_indexes (dimensions @ [n_bins]))"

definition get_feature_group_shape :: "booster \<Rightarrow> int \<Rightarrow> error + nat list" where
  "get_feature_group_shape self feature_group_index =
     (case getitem (self_feature_groups self) feature_group_index of
        Inl e \<Rightarrow> Inl e
      | Inr feature_indexes \<Rightarrow>
          (case append_bin_counts (self_features_bin_count self) feature_indexes [] of
             Inl e \<Rightarrow> Inl e
           | Inr dimensions \<Rightarrow>
               (let dimensions = rev dimensions;
                    n_scores = get_count_scores_c (self_n_classes self)
                in if n_scores > 1 then Inr (dimensions @ [nat n_scores])
                   else Inr dimensions)))"

text \<open>
  The end of the three tensor readers: the transpose of a tensor of a group of exactly two
  features, on three axes when \<open>2 < self._n_classes\<close> and on two otherwise.
\<close>

definition transpose_pair :: "booster \<Rightarrow> int \<Rightarrow> real ndarray \<Rightarrow> error + real ndarray" where
  "transpose_pair self feature_group_index tensor =
     (case getitem (self_feature_groups self) feature_group_index of
        Inl e \<Rightarrow> Inl e
      | Inr feature_indexes \<Rightarrow>
          if length feature_indexes = 2 then
            (if 2 < self_n_classes self then transpose_1_0_2 tensor else transpose_1_0 tensor)
          else Inr tensor)"

text \<open>
  \<open>_get_best_model_feature_group\<close> and \<open>_get_current_model_feature_group\<close> differ in the
  native function they call only; \<open>native_get\<close> is that call. \<open>np.empty(shape)\<close> is
  filled by the engine: the array read is the shape with the engine's content.
\<close>

definition get_model_feature_group ::
  "(int \<Rightarrow> native_call) \<Rightarrow> string \<Rightarrow> engine \<Rightarrow> booster \<Rightarrow> int \<Rightarrow>
   (error + real ndarray option) \<times> booster" where
  "get_model_feature_group native_get native_name E self feature_group_index =
     (if self_model_type self = ''classification'' \<and> self_n_classes self \<le> 1 then (Inr None, self)
      else
        case get_feature_group_shape self feature_group_index of
          Inl e \<Rightarrow> (Inl e, self)
        | Inr shp \<Rightarrow>
            (let (r, self) = unsafe E self (native_get feature_group_index)
             in if return_code r \<noteq> 0 then
                  (Inl (get_native_exception (return_code r) native_name), self)
                else
                  (case transpose_pair self feature_group_index
                          \<lparr>shape = shp, buffer = out_tensor r\<rparr> of
                     Inl e \<Rightarrow> (Inl e, self)
                   | Inr model_feature_group \<Rightarrow> (Inr (Some model_feature_group), self))))"

definition get_best_model_feature_group ::
  "engine \<Rightarrow> booster \<Rightarrow> int \<Rightarrow> (error + real ndarray option) \<times> booster" where
  "get_best_model_feature_group =
     get_model_feature_group GetBestModelFeatureGroup ''GetBestModelFeatureGroup''"

definition get_current_model_feature_group ::
  "engine \<Rightarrow> booster \<Rightarrow> int \<Rightarrow> (error + real ndarray option) \<times> booster" where
  "get_current_model_feature_group =
     get_model_feature_group GetCurrentModelFeatureGroup ''GetCurrentModelFeatureGroup''"

text \<open>
  The loop of \<open>get_best_model\<close> and of \<open>get_current_model\<close> over
  \<open>range(len(self._feature_groups))\<close>, appending each tensor to \<open>model\<close>.
\<close>

fun collect_model ::
  "(booster \<Rightarrow> int \<Rightarrow> (error + real ndarray option) \<times> booster) \<Rightarrow> nat list \<Rightarrow> booster \<Rightarrow>
   real ndarray option list \<Rightarrow> (error + real ndarray option list) \<times> booster" where
  "collect_model get_one [] self model = (Inr model, self)"
| "collect_model get_one (index # rest) self model =
     (case get_one self (int index) of
        (Inl e, self) \<Rightarrow> (Inl e, self)
      | (Inr model_feature_group, self) \<Rightarrow>
          collect_model get_one rest self (model @ [model_feature_group]))"

definition get_best_model ::
  "engine \<Rightarrow> booster \<Rightarrow> (error + real ndarray option list) \<times> booster" where
  "get_best_model E self =
     collect_model (get_best_model_feature_group E) [0..<length (self_feature_groups self)] self []"

definition get_current_model ::
  "engine \<Rightarrow> booster \<Rightarrow> (error + real ndarray option list) \<times> booster" where
  "get_current_model E self =
     collect_model (get_current_model_feature_group E) [0..<length (self_feature_groups self)] self []"

definition get_model_update_expanded ::
  "engine \<Rightarrow> booster \<Rightarrow> (error + real ndarray option) \<times> booster" where
  "get_model_update_expanded E self =
     (if self_feature_group_index self < 0 then
        (Inl (RuntimeError ''invalid internal self._feature_group_index''), self)
      else if self_model_type self = ''classification'' \<and> self_n_classes self \<le> 1 then
        (Inr None, self)
      else
        case get_feature_group_shape self (self_feature_group_index self) of
          Inl e \<Rightarrow> (Inl e, self)
        | Inr shp \<Rightarrow>
            (let (r, self) = unsafe E self GetModelUpdateExpanded
             in if return_code r \<noteq> 0 then
                  (Inl (get_native_exception (return_code r) ''GetModelUpdateExpanded''), self)
                else
                  (case transpose_pair self (self_feature_group_index self)
                          \<lparr>shape = shp, buffer = out_tensor r\<rparr> of
                     Inl e \<Rightarrow> (Inl e, self)
                   | Inr model_update \<Rightarrow> (Inr (Some model_update), self))))"

text \<open>
  \<open>set_model_update_expanded\<close>. \<open>model_update\<close> is a tensor or \<open>None\<close>. Outside the
  one-class case \<open>None\<close> is no tensor: \<open>np.transpose(None, ...)\<close> raises ValueError (a group
  of two features), \<open>None.shape\<close> AttributeError (any other group, after the shape of the
  group has been computed).
\<close>

definition set_model_update_expanded ::
  "engine \<Rightarrow> booster \<Rightarrow> int \<Rightarrow> real ndarray option \<Rightarrow> (error + unit) \<times> booster" where
  "set_model_update_expanded E self feature_group_index model_update =
     (let self = self\<lparr>self_feature_group_index := - 1\<rparr> in
      if self_model_type self = ''classification'' \<and> self_n_classes self \<le> 1 then
        (case model_update of
           None \<Rightarrow> (Inr (), self\<lparr>self_feature_group_index := feature_group_index\<rparr>)
         | Some _ \<Rightarrow>
             (Inl (ValueError ''a tensor with 1 class or less would be empty since the predictions would always be the same''), self))
      else
        case getitem (self_feature_groups self) feature_group_index of
          Inl e \<Rightarrow> (Inl e, self)
        | Inr feature_indexes \<Rightarrow>
            (case (case model_update of
                     None \<Rightarrow>
                       if length feature_indexes = 2 then Inl (ValueError ''axes do not match array'')
                       else Inr None
                   | Some tensor \<Rightarrow>
                       (case transpose_pair self feature_group_index tensor of
                          Inl e \<Rightarrow> Inl e
                        | Inr t \<Rightarrow> Inr (Some t))) of
               Inl e \<Rightarrow> (Inl e, self)
             | Inr model_update \<Rightarrow>
                 (case get_feature_group_shape self feature_group_index of
                    Inl e \<Rightarrow> (Inl e, self)
                  | Inr shp \<Rightarrow>
                      (case model_update of
                         None \<Rightarrow> (Inl (AttributeError ''NoneType object has no attribute shape''), self)
                       | Some model_update \<Rightarrow>
                           if shp \<noteq> shape model_update then
                             (Inl (ValueError ''incorrect tensor shape in call to set_model_update_expanded''), self)
                           else
                             (let (r, self) = unsafe E self
                                    (SetModelUpdateExpanded feature_group_index (buffer model_update))
                              in if return_code r \<noteq> 0 then
                                   (Inl (get_native_exception (return_code r) ''SetModelUpdateExpanded''), self)
                                 else (Inr (), self\<lparr>self_feature_group_index := feature_group_index\<rparr>))))))"

section \<open>class NativeEBMInteraction\<close>








section \<open>class NativeHelper\<close>

text \<open>
  The inner loop of \<open>cyclic_gradient_boost\<close>,
  \<open>for feature_group_index in range(len(feature_groups))\<close>, over the indexes left.
\<close>

fun boost_feature_groups ::
  "engine \<Rightarrow> int \<Rightarrow> real \<Rightarrow> int \<Rightarrow> int \<Rightarrow> nat list \<Rightarrow> booster \<Rightarrow> pyfloat \<Rightarrow>
   (error + pyfloat) \<times> booster" where
  "boost_feature_groups E generate_update_options learning_rate min_samples_leaf max_leaves
     [] native_ebm_booster min_metric = (Inr min_metric, native_ebm_booster)"
| "boost_feature_groups E generate_update_options learning_rate min_samples_leaf max_leaves
     (feature_group_index # rest) native_ebm_booster min_metric =
     (case generate_model_update E native_ebm_booster (int feature_group_index)
             generate_update_options learning_rate min_samples_leaf max_leaves of
        (Inl e, native_ebm_booster) \<Rightarrow> (Inl e, native_ebm_booster)
      | (Inr gain, native_ebm_booster) \<Rightarrow>
          (case apply_model_update E native_ebm_booster of
             (Inl e, native_ebm_booster) \<Rightarrow> (Inl e, native_ebm_booster)
           | (Inr curr_metric, native_ebm_booster) \<Rightarrow>
               boost_feature_groups E generate_update_options learning_rate min_samples_leaf
                 max_leaves rest native_ebm_booster (py_min (Float curr_metric) min_metric)))"

text \<open>
  The outer loop, \<open>for episode_index in range(max_rounds)\<close>, over the rounds left, with
  the four local variables it updates. It ends when the rounds are used up, at the
  \<open>break\<close>, or with the exception of a native call.
\<close>

fun boost_rounds ::
  "engine \<Rightarrow> int list list \<Rightarrow> int \<Rightarrow> real \<Rightarrow> int \<Rightarrow> int \<Rightarrow> int \<Rightarrow> real \<Rightarrow> nat list \<Rightarrow>
   booster \<Rightarrow> pyfloat \<Rightarrow> nat \<Rightarrow> nat \<Rightarrow> pyfloat \<Rightarrow>
   (error + pyfloat \<times> nat \<times> nat \<times> pyfloat) \<times> booster" where
  "boost_rounds E feature_groups generate_update_options learning_rate min_samples_leaf
     max_leaves early_stopping_rounds early_stopping_tolerance
     [] native_ebm_booster min_metric episode_index no_change_run_length bp_metric =
     (Inr (min_metric, episode_index, no_change_run_length, bp_metric), native_ebm_booster)"
| "boost_rounds E feature_groups generate_update_options learning_rate min_samples_leaf
     max_leaves early_stopping_rounds early_stopping_tolerance
     (i # rest) native_ebm_booster min_metric episode_index no_change_run_length bp_metric =
     (let episode_index = i in
      case boost_feature_groups E generate_update_options learning_rate min_samples_leaf
             max_leaves [0..<length feature_groups] native_ebm_booster min_metric of
        (Inl e, native_ebm_booster) \<Rightarrow> (Inl e, native_ebm_booster)
      | (Inr min_metric, native_ebm_booster) \<Rightarrow>
          (let bp_metric = (if no_change_run_length = 0 then min_metric else bp_metric);
               no_change_run_length =
                 (if float_lt (float_add min_metric early_stopping_tolerance) bp_metric then 0
                  else no_change_run_length + 1)
           in if early_stopping_rounds \<ge> 0 \<and> int no_change_run_length \<ge> early_stopping_rounds
              then (Inr (min_metric, episode_index, no_change_run_length, bp_metric),
                    native_ebm_booster)
              else boost_rounds E feature_groups generate_update_options learning_rate
                     min_samples_leaf max_leaves early_stopping_rounds early_stopping_tolerance
                     rest native_ebm_booster min_metric episode_index no_change_run_length
                     bp_metric))"

text \<open>
  \<open>NativeHelper.cyclic_gradient_boost\<close> (the parameter \<open>name\<close> is used for logging only).
  \<open>with closing(...)\<close> closes the session on every way out of its block, not when the
  constructor itself raises. Beside the result stands the history of native calls the run
  leaves behind.
\<close>

definition cyclic_gradient_boost ::
  "engine \<Rightarrow> string \<Rightarrow> int \<Rightarrow> int list \<Rightarrow> nat list \<Rightarrow> int list list \<Rightarrow>
   int ndarray \<Rightarrow> real ndarray \<Rightarrow> real ndarray \<Rightarrow> real ndarray option \<Rightarrow>
   int ndarray \<Rightarrow> real ndarray \<Rightarrow> real ndarray \<Rightarrow> real ndarray option \<Rightarrow>
   int \<Rightarrow> int \<Rightarrow> real \<Rightarrow> int \<Rightarrow> int \<Rightarrow> int \<Rightarrow> real \<Rightarrow> int \<Rightarrow> int \<Rightarrow> real list option \<Rightarrow>
   (error + real ndarray option list \<times> pyfloat \<times> nat) \<times> native_call list" where
  "cyclic_gradient_boost E model_type n_classes features_categorical features_bin_count
     feature_groups X_train y_train w_train scores_train X_val y_val w_val scores_val
     n_inner_bags generate_update_options learning_rate min_samples_leaf max_leaves
     early_stopping_rounds early_stopping_tolerance max_rounds random_state
     optional_temp_params =
     (let min_metric = Inf; episode_index = 0 in
      case NativeEBMBooster_init E model_type n_classes features_categorical
             features_bin_count feature_groups X_train y_train w_train scores_train
             X_val y_val w_val scores_val n_inner_bags random_state optional_temp_params of
        (Inl e, native_ebm_booster) \<Rightarrow> (Inl e, self_calls native_ebm_booster)
      | (Inr _, native_ebm_booster) \<Rightarrow>
          (let no_change_run_length = 0; bp_metric = Inf in
           case boost_rounds E feature_groups generate_update_options learning_rate
                  min_samples_leaf max_leaves early_stopping_rounds early_stopping_tolerance
                  [0..<nat max_rounds] native_ebm_booster min_metric episode_index
                  no_change_run_length bp_metric of
             (Inl e, native_ebm_booster) \<Rightarrow> (Inl e, self_calls (close E native_ebm_booster))
           | (Inr (min_metric, episode_index, _, _), native_ebm_booster) \<Rightarrow>
               (case (if shape X_val ! 1 = 0 then get_current_model E native_ebm_booster
                      else get_best_model E native_ebm_booster) of
                  (Inl e, native_ebm_booster) \<Rightarrow>
                    (Inl e, self_calls (close E native_ebm_booster))
                | (Inr model_update, native_ebm_booster) \<Rightarrow>
                    (Inr (model_update, min_metric, episode_index),
                     self_calls (close E native_ebm_booster)))))"



section \<open>Metric sequences\<close>




text \<open>Two states of a session that differ in the staged index and the call history only.\<close>

definition same_session :: "booster \<Rightarrow> booster \<Rightarrow> bool" where
  "same_session a b \<longleftrightarrow>
     self_model_type a = self_model_type b \<and> self_n_classes a = self_n_classes b \<and>
     self_feature_groups a = self_feature_groups b \<and>
     self_features_bin_count a = self_features_bin_count b"

section \<open>Example inputs\<close>

text \<open>An engine that accepts every call and writes zeros.\<close>

definition ok_reply :: native_reply where
  "ok_reply = \<lparr>return_code = 0, out_handle = Some 1, out_double = 0, out_tensor = [0, 0]\<rparr>"

definition ok_engine :: engine where
  "ok_engine h c = ok_reply"

text \<open>
  An engine that accepts every call and whose \<open>n\<close>-th \<open>ApplyModelUpdate\<close> call (from 0)
  returns the metric \<open>metric n\<close>.
\<close>

definition metric_engine :: "(nat \<Rightarrow> real) \<Rightarrow> engine" where
  "metric_engine metric h c =
     ok_reply\<lparr>out_double :=
       (if c = ApplyModelUpdate then metric (count_list h ApplyModelUpdate) else 0)\<rparr>"

text \<open>The metrics 3, 2, 1, 1, 1, ...\<close>

definition metric_ex :: "nat \<Rightarrow> real" where
  "metric_ex n = (if n = 0 then 3 else if n = 1 then 2 else 1)"

text \<open>An engine that keeps the expanded update it was given last and returns it.\<close>

definition store_engine :: engine where
  "store_engine h c =
     (case c of
        GetModelUpdateExpanded \<Rightarrow>
          (case rev h of
             SetModelUpdateExpanded g buf # _ \<Rightarrow>
               \<lparr>return_code = 0, out_handle = None, out_double = 0, out_tensor = buf\<rparr>
           | _ \<Rightarrow> \<lparr>return_code = 3, out_handle = None, out_double = 0, out_tensor = []\<rparr>)
      | _ \<Rightarrow> \<lparr>return_code = 0, out_handle = Some 1, out_double = 0, out_tensor = []\<rparr>)"


text \<open>One feature with two bins, two samples.\<close>

definition X_ex :: "int ndarray" where "X_ex = \<lparr>shape = [1, 2], buffer = [0, 1]\<rparr>"

definition y_ex :: "real ndarray" where "y_ex = \<lparr>shape = [2], buffer = [0, 1]\<rparr>"

definition w_ex :: "real ndarray" where "w_ex = \<lparr>shape = [2], buffer = [1, 1]\<rparr>"

text \<open>
  A session over a feature with 2 bins and a feature with 4 bins, with the feature groups
  \<open>[[0], [1], [0, 1]]\<close>.
\<close>

definition example_booster :: "string \<Rightarrow> int \<Rightarrow> booster" where
  "example_booster model_type n_classes =
     \<lparr>self_booster_handle = Some 1, self_feature_group_index = - 1,
      self_model_type = model_type, self_n_classes = n_classes,
      self_features_bin_count = [2, 4], self_feature_groups = [[0], [1], [0, 1]],
      self_calls = []\<rparr>"

definition T_ex :: "real ndarray" where
  "T_ex = \<lparr>shape = [2, 4], buffer = [1, 2, 3, 4, 5, 6, 7, 8]\<rparr>"

section \<open>Concrete runs, evaluated\<close>

lemmas run_defs =
  cyclic_gradient_boost_def NativeEBMBooster_init_def new_booster_def check_booster_inputs_def
  init_scores_def get_count_scores_c_def convert_feature_groups_to_c_def unsafe_def
  metric_engine_def metric_ex_def ok_reply_def X_ex_def y_ex_def w_ex_def ndim_def len_def
  generate_model_update_def apply_model_update_def getitem_def py_min_def get_best_model_def
  get_best_model_feature_group_def get_model_feature_group_def get_feature_group_shape_def
  transpose_pair_def close_def Let_def boost_rounds.simps(2)

lemma upt_2: "[0..<2] = [0, 1 :: nat]"
  by code_simp



lemma two_round_run:
  "cyclic_gradient_boost (metric_engine metric_ex) ''regression'' 0 [0] [2] [[0]]
     X_ex y_ex w_ex None X_ex y_ex w_ex None 0 0 (1 / 100) 2 3 (- 1) (1 / 10000) 2 0 None
   = (Inr ([Some \<lparr>shape = [2], buffer = [0, 0]\<rparr>], Float 2, 1),
      [CreateRegressionBooster 0 1 [0] [2] 1 [1] [0]
         2 X_ex y_ex w_ex (np_zeros 2) 2 X_ex y_ex w_ex (np_zeros 2) 0 None,
       GenerateModelUpdate 0 0 (1 / 100) 2 [3], ApplyModelUpdate,
       GenerateModelUpdate 0 0 (1 / 100) 2 [3], ApplyModelUpdate,
       GetBestModelFeatureGroup 0, FreeBooster])"
  by (simp add: run_defs upt_2)






section \<open>The tensor shape of a feature group\<close>

lemma append_bin_counts_all2:
  "list_all2 (\<lambda>f b. getitem bins f = Inr b) fs bs \<Longrightarrow>
   append_bin_counts bins fs acc = Inr (acc @ bs)"
proof (induction fs arbitrary: bs acc)
  case Nil
  then show ?case by simp
next
  case (Cons f fs)
  from Cons.prems obtain b bs' where bs: "bs = b # bs'"
    and hd: "getitem bins f = Inr b"
    and tl: "list_all2 (\<lambda>f b. getitem bins f = Inr b) fs bs'"
    by (auto simp: list_all2_Cons1)
  show ?case using Cons.IH [OF tl, of "acc @ [b]"] hd bs by simp
qed

text \<open>
  C4. For a feature group \<open>fs\<close> of \<open>k\<close> member features whose bin counts are
  \<open>bs = b_1..b_k\<close>, the shape computed by \<open>_get_feature_group_shape\<close> is
  \<open>reverse(b_1..b_k)\<close>, with exactly \<open>k\<close> axes, when the number of scores is 1, and
  \<open>reverse(b_1..b_k)\<close> followed by one trailing axis of size \<open>n_classes\<close>, with \<open>k + 1\<close>
  axes, when \<open>n_classes > 2\<close>; the number of scores is \<open>n_classes\<close> when
  \<open>n_classes > 2\<close> and 1 otherwise.
\<close>

theorem feature_group_shape:
  assumes "getitem (self_feature_groups self) g = Inr fs"
    and "list_all2 (\<lambda>f b. getitem (self_features_bin_count self) f = Inr b) fs bs"
  shows "get_count_scores_c (self_n_classes self)
           = (if self_n_classes self > 2 then self_n_classes self else 1) \<and>
         (get_count_scores_c (self_n_classes self) = 1 \<longrightarrow>
            get_feature_group_shape self g = Inr (rev bs) \<and>
            length (rev bs) = length fs) \<and>
         (self_n_classes self > 2 \<longrightarrow>
            get_feature_group_shape self g = Inr (rev bs @ [nat (self_n_classes self)]) \<and>
            length (rev bs @ [nat (self_n_classes self)]) = length fs + 1 \<and>
            int (last (rev bs @ [nat (self_n_classes self)])) = self_n_classes self)"
proof -
  have len: "length bs = length fs"
    using assms(2) by (simp add: list_all2_lengthD)
  have dims: "append_bin_counts (self_features_bin_count self) fs [] = Inr bs"
    using append_bin_counts_all2 [OF assms(2), of "[]"] by simp
  show ?thesis
    using assms(1) dims len
    by (simp add: get_feature_group_shape_def get_count_scores_c_def)
qed

text \<open>
  The scenario of the specification: bin counts 2 and 4, the pair group \<open>[0, 1]\<close>; shape
  \<open>(4, 2)\<close> for a regression, \<open>(4, 2, 3)\<close> for three classes.
\<close>

theorem feature_group_shape_witness:
  "get_feature_group_shape (example_booster ''regression'' 0) 2 = Inr [4, 2] \<and>
   get_feature_group_shape (example_booster ''classification'' 3) 2 = Inr [4, 2, 3]"
proof -
  have g: "getitem (self_feature_groups (example_booster m n)) 2 = Inr [0, 1]" for m n
    by (simp add: getitem_def example_booster_def)
  have b: "list_all2 (\<lambda>f b. getitem (self_features_bin_count (example_booster m n)) f = Inr b)
             [0, 1] [2, 4]" for m n
    by (simp add: getitem_def example_booster_def)
  show ?thesis
    using feature_group_shape [OF g b, of "''regression''" 0]
      feature_group_shape [OF g b, of "''classification''" 3]
    by (simp add: get_count_scores_c_def example_booster_def)
qed

section \<open>The staged feature group\<close>







section \<open>The one-class case of the staged update\<close>

text \<open>
  C8, as stated, fails: in a one-class classification session in which no update is staged
  (here: a session just opened), \<open>get_model_update_expanded\<close> raises RuntimeError; the check
  of the staged index comes before the one-class case.
\<close>

theorem one_class_get_counterexample:
  "NativeEBMBooster_init ok_engine ''classification'' 1 [0] [2] [[0]]
     X_ex y_ex w_ex None X_ex y_ex w_ex None 0 0 None
     = (Inr (), \<lparr>self_booster_handle = Some 1, self_feature_group_index = - 1,
        self_model_type = ''classification'', self_n_classes = 1,
        self_features_bin_count = [2], self_feature_groups = [[0]],
        self_calls = [CreateClassificationBooster 0 1 1 [0] [2] 1 [1] [0]
                        2 X_ex y_ex w_ex (np_zeros 2) 2 X_ex y_ex w_ex (np_zeros 2) 0 None]\<rparr>) \<and>
   fst (get_model_update_expanded ok_engine
     (snd (NativeEBMBooster_init ok_engine ''classification'' 1 [0] [2] [[0]]
        X_ex y_ex w_ex None X_ex y_ex w_ex None 0 0 None)))
     = Inl (RuntimeError ''invalid internal self._feature_group_index'')"
  by (simp add: NativeEBMBooster_init_def new_booster_def check_booster_inputs_def
      init_scores_def get_count_scores_c_def convert_feature_groups_to_c_def unsafe_def
      ok_engine_def ok_reply_def X_ex_def y_ex_def w_ex_def ndim_def len_def
      get_model_update_expanded_def)

text \<open>
  C8, amended. In a classification session with \<open>n_classes \<le> 1\<close>:
  \<open>get_model_update_expanded\<close> returns \<open>None\<close> when an update is staged and raises
  RuntimeError when none is; \<open>set_model_update_expanded\<close> given \<open>None\<close> returns and stages
  the requested group, given a tensor it raises ValueError and leaves no update staged. None
  of the three makes a native call.
\<close>

theorem one_class_update_expanded:
  assumes "self_model_type self = ''classification''" and "self_n_classes self \<le> 1"
  shows "get_model_update_expanded E self
           = (if self_feature_group_index self < 0
              then Inl (RuntimeError ''invalid internal self._feature_group_index'')
              else Inr None, self) \<and>
         set_model_update_expanded E self g None
           = (Inr (), self\<lparr>self_feature_group_index := g\<rparr>) \<and>
         set_model_update_expanded E self g (Some tensor)
           = (Inl (ValueError ''a tensor with 1 class or less would be empty since the predictions would always be the same''),
              self\<lparr>self_feature_group_index := - 1\<rparr>) \<and>
         self_calls (snd (get_model_update_expanded E self)) = self_calls self \<and>
         self_calls (snd (set_model_update_expanded E self g None)) = self_calls self \<and>
         self_calls (snd (set_model_update_expanded E self g (Some tensor))) = self_calls self"
  using assms by (simp add: get_model_update_expanded_def set_model_update_expanded_def)

text \<open>
  A one-class session over the groups \<open>[[0], [1], [0, 1]]\<close>: with group 2 staged the
  reader returns \<open>None\<close>; \<open>None\<close> is accepted for group 2; a tensor is refused, and the
  history of native calls stays empty.
\<close>

theorem one_class_update_expanded_witness:
  "get_model_update_expanded ok_engine
      ((example_booster ''classification'' 1)\<lparr>self_feature_group_index := 2\<rparr>)
     = (Inr None, (example_booster ''classification'' 1)\<lparr>self_feature_group_index := 2\<rparr>) \<and>
   set_model_update_expanded ok_engine (example_booster ''classification'' 1) 2 None
     = (Inr (), (example_booster ''classification'' 1)\<lparr>self_feature_group_index := 2\<rparr>) \<and>
   fst (set_model_update_expanded ok_engine (example_booster ''classification'' 1) 0
          (Some \<lparr>shape = [2], buffer = [0, 0]\<rparr>))
     = Inl (ValueError ''a tensor with 1 class or less would be empty since the predictions would always be the same'') \<and>
   self_calls (snd (set_model_update_expanded ok_engine (example_booster ''classification'' 1) 0
          (Some \<lparr>shape = [2], buffer = [0, 0]\<rparr>))) = []"
proof -
  have m: "self_model_type (b\<lparr>self_feature_group_index := i\<rparr>) = ''classification''"
    if "b = example_booster ''classification'' 1" for b i
    using that by (simp add: example_booster_def)
  have n: "self_n_classes (b\<lparr>self_feature_group_index := i\<rparr>) \<le> 1"
    if "b = example_booster ''classification'' 1" for b i
    using that by (simp add: example_booster_def)
  show ?thesis
    using one_class_update_expanded [OF m n, OF refl refl, of ok_engine 2 2 "\<lparr>shape = [2], buffer = [0, 0]\<rparr>"]
      one_class_update_expanded [OF m n, OF refl refl, of ok_engine "- 1" 2 "\<lparr>shape = [2], buffer = [0, 0]\<rparr>"]
      one_class_update_expanded [OF m n, OF refl refl, of ok_engine "- 1" 0 "\<lparr>shape = [2], buffer = [0, 0]\<rparr>"]
    by (simp add: example_booster_def)
qed

section \<open>The model of a one-class classification\<close>

lemma same_session_refl [simp]: "same_session a a"
  by (simp add: same_session_def)

lemma same_session_trans: "same_session a b \<Longrightarrow> same_session b c \<Longrightarrow> same_session a c"
  by (simp add: same_session_def)

lemma init_fields:
  assumes "NativeEBMBooster_init E model_type n_classes features_categorical
     features_bin_count feature_groups X_train y_train w_train scores_train X_val y_val w_val
     scores_val n_inner_bags random_state optional_temp_params = (Inr u, b)"
  shows "self_model_type b = model_type \<and> self_n_classes b = n_classes \<and>
         self_feature_groups b = feature_groups \<and> self_features_bin_count b = features_bin_count"
  using assms
  by (auto simp: NativeEBMBooster_init_def new_booster_def unsafe_def Let_def
      split: option.splits sum.splits prod.splits if_splits)

lemma generate_same_session:
  "generate_model_update E b g opts lr msl ml = (r, b') \<Longrightarrow> same_session b b'"
  by (auto simp: generate_model_update_def unsafe_def Let_def same_session_def
      split: sum.splits if_splits)

lemma apply_same_session:
  "apply_model_update E b = (r, b') \<Longrightarrow> same_session b b'"
  by (auto simp: apply_model_update_def unsafe_def Let_def same_session_def split: if_splits)

lemma boost_feature_groups_same_session:
  "boost_feature_groups E opts lr msl ml gs b m = (r, b') \<Longrightarrow> same_session b b'"
proof (induction gs arbitrary: b m)
  case Nil
  then show ?case by simp
next
  case (Cons g gs)
  obtain r1 b1 where g1: "generate_model_update E b (int g) opts lr msl ml = (r1, b1)"
    by (cases "generate_model_update E b (int g) opts lr msl ml")
  obtain r2 b2 where a2: "apply_model_update E b1 = (r2, b2)"
    by (cases "apply_model_update E b1")
  have s1: "same_session b b1" using g1 by (rule generate_same_session)
  have s2: "same_session b1 b2" using a2 by (rule apply_same_session)
  show ?case
  proof (cases r1)
    case (Inl e)
    then show ?thesis using Cons.prems g1 s1 by simp
  next
    case (Inr gain)
    note r1 = this
    show ?thesis
    proof (cases r2)
      case (Inl e)
      then show ?thesis using Cons.prems g1 a2 r1 s1 s2 by (auto intro: same_session_trans)
    next
      case (Inr curr)
      then have "boost_feature_groups E opts lr msl ml gs b2 (py_min (Float curr) m) = (r, b')"
        using Cons.prems g1 a2 r1 by simp
      from Cons.IH [OF this] show ?thesis using s1 s2 by (blast intro: same_session_trans)
    qed
  qed
qed

lemma boost_rounds_same_session:
  "boost_rounds E fgs opts lr msl ml R tol rounds b m ei rl bp = (r, b') \<Longrightarrow> same_session b b'"
proof (induction rounds arbitrary: b m ei rl bp)
  case Nil
  then show ?case by simp
next
  case (Cons i rounds)
  obtain r1 b1 where s: "boost_feature_groups E opts lr msl ml [0..<length fgs] b m = (r1, b1)"
    by (cases "boost_feature_groups E opts lr msl ml [0..<length fgs] b m")
  have s1: "same_session b b1" using s by (rule boost_feature_groups_same_session)
  show ?case
  proof (cases r1)
    case (Inl e)
    then show ?thesis using Cons.prems s s1 by simp
  next
    case (Inr m1)
    show ?thesis
      using Cons.prems s Inr s1
      by (auto simp: Let_def split: if_splits dest!: Cons.IH intro: same_session_trans)
  qed
qed

lemma collect_model_one_class:
  assumes "self_model_type b = ''classification''" and "self_n_classes b \<le> 1"
  shows "collect_model (get_model_feature_group native_get native_name E) idxs b acc
           = (Inr (acc @ replicate (length idxs) None), b)"
  using assms
proof (induction idxs arbitrary: acc)
  case Nil
  then show ?case by simp
next
  case (Cons i idxs)
  have "get_model_feature_group native_get native_name E b (int i) = (Inr None, b)"
    using Cons.prems by (simp add: get_model_feature_group_def)
  then show ?case using Cons.IH [OF Cons.prems] by (simp add: replicate_append_same)
qed

lemma one_class_models:
  assumes "self_model_type b = ''classification''" and "self_n_classes b \<le> 1"
  shows "get_best_model E b = (Inr (replicate (length (self_feature_groups b)) None), b)"
    and "get_current_model E b = (Inr (replicate (length (self_feature_groups b)) None), b)"
  using collect_model_one_class [OF assms, of _ _ E _ "[]"]
  by (simp_all add: get_best_model_def get_current_model_def
      get_best_model_feature_group_def get_current_model_feature_group_def)

text \<open>
  C10. In a classification session with \<open>n_classes \<le> 1\<close>, \<open>get_best_model\<close> and
  \<open>get_current_model\<close> return one \<open>None\<close> per feature group, in the order of the feature
  groups, and make no native call (the session is unchanged); so the model that
  \<open>cyclic_gradient_boost\<close> returns for such a classification is a list of one \<open>None\<close> per
  feature group.
\<close>

theorem one_class_model_is_absent:
  "(self_model_type self = ''classification'' \<and> self_n_classes self \<le> 1 \<longrightarrow>
      get_best_model E self = (Inr (replicate (length (self_feature_groups self)) None), self) \<and>
      get_current_model E self = (Inr (replicate (length (self_feature_groups self)) None), self)) \<and>
   (n_classes \<le> 1 \<and>
    cyclic_gradient_boost E ''classification'' n_classes features_categorical features_bin_count
      feature_groups X_train y_train w_train scores_train X_val y_val w_val scores_val
      n_inner_bags generate_update_options learning_rate min_samples_leaf max_leaves
      early_stopping_rounds early_stopping_tolerance max_rounds random_state
      optional_temp_params = (Inr (model_update, min_metric, episode_index), calls) \<longrightarrow>
    model_update = replicate (length feature_groups) None)"
proof (intro conjI impI)
  assume "self_model_type self = ''classification'' \<and> self_n_classes self \<le> 1"
  then show "get_best_model E self = (Inr (replicate (length (self_feature_groups self)) None), self)"
    and "get_current_model E self = (Inr (replicate (length (self_feature_groups self)) None), self)"
    by (simp_all add: one_class_models)
next
  assume a: "n_classes \<le> 1 \<and>
    cyclic_gradient_boost E ''classification'' n_classes features_categorical features_bin_count
      feature_groups X_train y_train w_train scores_train X_val y_val w_val scores_val
      n_inner_bags generate_update_options learning_rate min_samples_leaf max_leaves
      early_stopping_rounds early_stopping_tolerance max_rounds random_state
      optional_temp_params = (Inr (model_update, min_metric, episode_index), calls)"
  obtain r0 b0 where init: "NativeEBMBooster_init E ''classification'' n_classes
      features_categorical features_bin_count feature_groups X_train y_train w_train scores_train
      X_val y_val w_val scores_val n_inner_bags random_state optional_temp_params = (r0, b0)"
    by (cases "NativeEBMBooster_init E ''classification'' n_classes
      features_categorical features_bin_count feature_groups X_train y_train w_train scores_train
      X_val y_val w_val scores_val n_inner_bags random_state optional_temp_params")
  obtain r1 b1 where loop: "boost_rounds E feature_groups generate_update_options learning_rate
      min_samples_leaf max_leaves early_stopping_rounds early_stopping_tolerance
      [0..<nat max_rounds] b0 Inf 0 0 Inf = (r1, b1)"
    by (cases "boost_rounds E feature_groups generate_update_options learning_rate
      min_samples_leaf max_leaves early_stopping_rounds early_stopping_tolerance
      [0..<nat max_rounds] b0 Inf 0 0 Inf")
  from a init obtain u where r0: "r0 = Inr u"
    by (cases r0) (auto simp: cyclic_gradient_boost_def)
  have f0: "self_model_type b0 = ''classification'' \<and> self_n_classes b0 = n_classes \<and>
         self_feature_groups b0 = feature_groups \<and> self_features_bin_count b0 = features_bin_count"
    using init_fields [OF init [unfolded r0]] .
  have "same_session b0 b1" using loop by (rule boost_rounds_same_session)
  with f0 have f1: "self_model_type b1 = ''classification''" "self_n_classes b1 \<le> 1"
    "self_feature_groups b1 = feature_groups"
    using a by (simp_all add: same_session_def)
  show "model_update = replicate (length feature_groups) None"
    using a init r0 loop f1(3) one_class_models [OF f1(1,2), of E]
    by (auto simp: cyclic_gradient_boost_def split: sum.splits prod.splits if_splits)
qed

lemma one_class_run:
  "cyclic_gradient_boost ok_engine ''classification'' 1 [0] [2] [[0]]
     X_ex y_ex w_ex None X_ex y_ex w_ex None 0 0 (1 / 100) 2 3 (- 1) 0 1 0 None
   = (Inr ([None], Float 0, 0),
      [CreateClassificationBooster 0 1 1 [0] [2] 1 [1] [0]
         2 X_ex y_ex w_ex (np_zeros 2) 2 X_ex y_ex w_ex (np_zeros 2) 0 None,
       GenerateModelUpdate 0 0 (1 / 100) 2 [3], ApplyModelUpdate, FreeBooster])"
  by (simp add: cyclic_gradient_boost_def NativeEBMBooster_init_def new_booster_def
      check_booster_inputs_def init_scores_def get_count_scores_c_def
      convert_feature_groups_to_c_def unsafe_def ok_engine_def ok_reply_def X_ex_def y_ex_def
      w_ex_def ndim_def len_def generate_model_update_def apply_model_update_def getitem_def
      py_min_def get_best_model_def get_best_model_feature_group_def
      get_model_feature_group_def close_def Let_def)

text \<open>
  A one-class run of one round over one feature group returns the model \<open>[None]\<close>, and a
  one-class session over three groups reads three \<open>None\<close>.
\<close>

theorem one_class_model_is_absent_witness:
  "fst (cyclic_gradient_boost ok_engine ''classification'' 1 [0] [2] [[0]]
     X_ex y_ex w_ex None X_ex y_ex w_ex None 0 0 (1 / 100) 2 3 (- 1) 0 1 0 None)
     = Inr (replicate (length [[0 :: int]]) None, Float 0, 0) \<and>
   get_best_model ok_engine (example_booster ''classification'' 1)
     = (Inr [None, None, None], example_booster ''classification'' 1) \<and>
   get_current_model ok_engine (example_booster ''classification'' 1)
     = (Inr [None, None, None], example_booster ''classification'' 1)"
proof -
  have s: "self_model_type (example_booster ''classification'' 1) = ''classification'' \<and>
           self_n_classes (example_booster ''classification'' 1) \<le> 1"
    by (simp add: example_booster_def)
  have l: "length (self_feature_groups (example_booster ''classification'' 1)) = 3"
    by (simp add: example_booster_def)
  have r: "replicate 3 None = [None, None, None :: real ndarray option]"
    by (simp add: numeral_3_eq_3)
  show ?thesis
    using one_class_model_is_absent [of "example_booster ''classification'' 1" ok_engine 1
        "[0]" "[2]" "[[0]]" X_ex y_ex w_ex None X_ex y_ex w_ex None 0 0 "1 / 100" 2 3 "- 1" 0 1 0
        None "[None]" "Float 0" 0] s l r one_class_run
    by simp
qed

section \<open>Prior scores that are not supplied\<close>

text \<open>
  C7, as stated, fails for more than one score: for three classes and two samples, with no
  scores supplied, the tensor passed to \<open>CreateClassificationBooster\<close> has the shape \<open>[6]\<close>,
  one axis of \<open>n_samples * n_scores\<close> zeros, not \<open>[2, 3]\<close>.
\<close>

theorem synthesized_scores_counterexample:
  "self_calls (snd (NativeEBMBooster_init ok_engine ''classification'' 3 [0] [2] [[0]]
      X_ex y_ex w_ex None X_ex y_ex w_ex None 0 0 None))
     = [CreateClassificationBooster 0 3 1 [0] [2] 1 [1] [0]
          2 X_ex y_ex w_ex \<lparr>shape = [6], buffer = [0, 0, 0, 0, 0, 0]\<rparr>
          2 X_ex y_ex w_ex \<lparr>shape = [6], buffer = [0, 0, 0, 0, 0, 0]\<rparr> 0 None] \<and>
   get_count_scores_c 3 = 3 \<and> len y_ex = 2 \<and> [6 :: nat] \<noteq> [2, 3]"
  by (simp add: NativeEBMBooster_init_def new_booster_def check_booster_inputs_def
      init_scores_def get_count_scores_c_def convert_feature_groups_to_c_def unsafe_def
      ok_engine_def ok_reply_def X_ex_def y_ex_def w_ex_def ndim_def len_def np_zeros_def
      numeral_eq_Suc)

text \<open>
  C7, amended. When the inputs pass the checks of the constructor, the one native call it
  makes is the create call of the model type, and it passes, for each of \<open>scores_train\<close> and
  \<open>scores_val\<close> that is absent, an all-zero tensor with the single axis
  \<open>n_samples * n_scores\<close> (the buffer of a C-contiguous \<open>[n_samples, n_scores]\<close> tensor); for
  one score that is the shape \<open>[n_samples]\<close>.
\<close>

theorem synthesized_scores:
  assumes "check_booster_inputs features_categorical features_bin_count
             X_train y_train w_train X_val y_val w_val = None"
    and "init_scores ''scores_train'' ''y_train'' (get_count_scores_c n_classes) y_train scores_train
           = Inr passed_train"
    and "init_scores ''scores_val'' ''y_val'' (get_count_scores_c n_classes) y_val scores_val
           = Inr passed_val"
    and "model_type = ''classification'' \<or> model_type = ''regression''"
  shows "self_calls (snd (NativeEBMBooster_init E model_type n_classes features_categorical
           features_bin_count feature_groups X_train y_train w_train scores_train
           X_val y_val w_val scores_val n_inner_bags random_state optional_temp_params))
         = [if model_type = ''classification'' then
              CreateClassificationBooster random_state n_classes
                (int (length features_bin_count)) features_categorical features_bin_count
                (int (length feature_groups)) (map (\<lambda>g. int (length g)) feature_groups)
                (concat feature_groups)
                (int (len y_train)) X_train y_train w_train passed_train
                (int (len y_val)) X_val y_val w_val passed_val n_inner_bags optional_temp_params
            else
              CreateRegressionBooster random_state
                (int (length features_bin_count)) features_categorical features_bin_count
                (int (length feature_groups)) (map (\<lambda>g. int (length g)) feature_groups)
                (concat feature_groups)
                (int (len y_train)) X_train y_train w_train passed_train
                (int (len y_val)) X_val y_val w_val passed_val n_inner_bags optional_temp_params] \<and>
         (scores_train = None \<longrightarrow>
            passed_train = \<lparr>shape = [len y_train * nat (get_count_scores_c n_classes)],
                             buffer = replicate (len y_train * nat (get_count_scores_c n_classes)) 0\<rparr>) \<and>
         (scores_val = None \<longrightarrow>
            passed_val = \<lparr>shape = [len y_val * nat (get_count_scores_c n_classes)],
                           buffer = replicate (len y_val * nat (get_count_scores_c n_classes)) 0\<rparr>) \<and>
         (get_count_scores_c n_classes = 1 \<longrightarrow>
            len y_train * nat (get_count_scores_c n_classes) = len y_train \<and>
            len y_val * nat (get_count_scores_c n_classes) = len y_val)"
proof -
  have pos: "0 \<le> get_count_scores_c n_classes"
    by (simp add: get_count_scores_c_def)
  have z: "nat (int (len y) * get_count_scores_c n_classes)
             = len y * nat (get_count_scores_c n_classes)" for y :: "real ndarray"
    using pos by (simp add: nat_mult_distrib)
  have t: "scores_train = None \<longrightarrow>
            passed_train = \<lparr>shape = [len y_train * nat (get_count_scores_c n_classes)],
                             buffer = replicate (len y_train * nat (get_count_scores_c n_classes)) 0\<rparr>"
    using assms(2) z by (auto simp: init_scores_def np_zeros_def)
  have v: "scores_val = None \<longrightarrow>
            passed_val = \<lparr>shape = [len y_val * nat (get_count_scores_c n_classes)],
                           buffer = replicate (len y_val * nat (get_count_scores_c n_classes)) 0\<rparr>"
    using assms(3) z by (auto simp: init_scores_def np_zeros_def)
  have c: "self_calls (snd (NativeEBMBooster_init E model_type n_classes features_categorical
           features_bin_count feature_groups X_train y_train w_train scores_train
           X_val y_val w_val scores_val n_inner_bags random_state optional_temp_params))
         = [if model_type = ''classification'' then
              CreateClassificationBooster random_state n_classes
                (int (length features_bin_count)) features_categorical features_bin_count
                (int (length feature_groups)) (map (\<lambda>g. int (length g)) feature_groups)
                (concat feature_groups)
                (int (len y_train)) X_train y_train w_train passed_train
                (int (len y_val)) X_val y_val w_val passed_val n_inner_bags optional_temp_params
            else
              CreateRegressionBooster random_state
                (int (length features_bin_count)) features_categorical features_bin_count
                (int (length feature_groups)) (map (\<lambda>g. int (length g)) feature_groups)
                (concat feature_groups)
                (int (len y_train)) X_train y_train w_train passed_train
                (int (len y_val)) X_val y_val w_val passed_val n_inner_bags optional_temp_params]"
    using assms
    by (auto simp: NativeEBMBooster_init_def new_booster_def unsafe_def Let_def
        convert_feature_groups_to_c_def)
  show ?thesis using c t v by simp
qed

text \<open>A regression over two samples: both score tensors passed are \<open>[0, 0]\<close> of shape \<open>[2]\<close>.\<close>

theorem synthesized_scores_witness:
  "self_calls (snd (NativeEBMBooster_init ok_engine ''regression'' 0 [0] [2] [[0]]
      X_ex y_ex w_ex None X_ex y_ex w_ex None 0 0 None))
     = [CreateRegressionBooster 0 1 [0] [2] 1 [1] [0]
          2 X_ex y_ex w_ex \<lparr>shape = [2], buffer = [0, 0]\<rparr>
          2 X_ex y_ex w_ex \<lparr>shape = [2], buffer = [0, 0]\<rparr> 0 None]"
proof -
  have c: "check_booster_inputs [0] [2] X_ex y_ex w_ex X_ex y_ex w_ex = None"
    by (simp add: check_booster_inputs_def X_ex_def y_ex_def w_ex_def ndim_def len_def)
  have s: "init_scores n1 n2 (get_count_scores_c 0) y_ex None
             = Inr \<lparr>shape = [2], buffer = [0, 0]\<rparr>" for n1 n2
    by (simp add: init_scores_def get_count_scores_c_def y_ex_def len_def np_zeros_def
        numeral_eq_Suc)
  have m: "''regression'' = ''classification'' \<or> ''regression'' = ''regression''" by simp
  show ?thesis
    using synthesized_scores [OF c s s m, of ok_engine "[[0]]" 0 0 None]
    by (simp add: y_ex_def len_def)
qed

section \<open>The ranking of interactions\<close>








section \<open>The round trip of an expanded update\<close>

lemma index_swap:
  fixes k s0 s1 :: nat
  assumes "k < s0 * s1"
  shows "(k mod s1) * s0 + k div s1 < s1 * s0"
    and "((k mod s1) * s0 + k div s1) mod s0 = k div s1"
    and "((k mod s1) * s0 + k div s1) div s0 = k mod s1"
proof -
  have s1: "0 < s1" using assms by (cases s1) auto
  have d: "k div s1 < s0" using assms s1 by (simp add: less_mult_imp_div_less mult.commute)
  have m: "k mod s1 < s1" using s1 by simp
  have "(k mod s1) * s0 + k div s1 < (k mod s1) * s0 + s0" using d by simp
  also have "\<dots> = (k mod s1 + 1) * s0" by simp
  also have "\<dots> \<le> s1 * s0" using m by (intro mult_le_mono1) simp
  finally show "(k mod s1) * s0 + k div s1 < s1 * s0" .
  show "((k mod s1) * s0 + k div s1) mod s0 = k div s1" using d by simp
  show "((k mod s1) * s0 + k div s1) div s0 = k mod s1" using d by simp
qed

lemma transpose_1_0_twice:
  assumes "shape a = [s0, s1]" and "length (buffer a) = s0 * s1"
  shows "\<exists>t. transpose_1_0 a = Inr t \<and> shape t = [s1, s0] \<and> transpose_1_0 t = Inr a"
proof -
  let ?t = "\<lparr>shape = [s1, s0],
             buffer = map (\<lambda>k. buffer a ! ((k mod s0) * s1 + k div s0)) [0..<s1 * s0]\<rparr>"
  have t: "transpose_1_0 a = Inr ?t" using assms(1) by (simp add: transpose_1_0_def)
  have "map (\<lambda>k. buffer ?t ! ((k mod s1) * s0 + k div s1)) [0..<s0 * s1] = buffer a"
  proof (rule nth_equalityI)
    show "length (map (\<lambda>k. buffer ?t ! ((k mod s1) * s0 + k div s1)) [0..<s0 * s1])
            = length (buffer a)"
      using assms(2) by simp
  next
    fix k assume "k < length (map (\<lambda>k. buffer ?t ! ((k mod s1) * s0 + k div s1)) [0..<s0 * s1])"
    then have k: "k < s0 * s1" by simp
    have "(k div s1) * s1 + k mod s1 = k" by simp
    then show "map (\<lambda>k. buffer ?t ! ((k mod s1) * s0 + k div s1)) [0..<s0 * s1] ! k = buffer a ! k"
      using k index_swap [OF k] by simp
  qed
  then have "transpose_1_0 ?t = Inr a"
    using assms(1) by (simp add: transpose_1_0_def)
  with t show ?thesis by simp
qed

lemma index_swap3:
  fixes k s0 s1 s2 :: nat
  assumes "k < s0 * s1 * s2"
  shows "((k div s2) mod s1 * s0 + (k div s2) div s1) * s2 + k mod s2 < s1 * s0 * s2"
    and "(((k div s2) mod s1 * s0 + (k div s2) div s1) * s2 + k mod s2) div s2
           = (k div s2) mod s1 * s0 + (k div s2) div s1"
    and "(((k div s2) mod s1 * s0 + (k div s2) div s1) * s2 + k mod s2) mod s2 = k mod s2"
proof -
  have s2: "0 < s2" using assms by (cases s2) auto
  have q: "k div s2 < s0 * s1" using assms s2 by (simp add: less_mult_imp_div_less)
  have m: "k mod s2 < s2" using s2 by simp
  let ?q = "(k div s2) mod s1 * s0 + (k div s2) div s1"
  have q': "?q < s1 * s0" using index_swap(1) [OF q] .
  have "?q * s2 + k mod s2 < ?q * s2 + s2" using m by simp
  also have "\<dots> = (?q + 1) * s2" by simp
  also have "\<dots> \<le> (s1 * s0) * s2" using q' by (intro mult_le_mono1) simp
  finally show "?q * s2 + k mod s2 < s1 * s0 * s2" .
  show "(?q * s2 + k mod s2) div s2 = ?q" using m by simp
  show "(?q * s2 + k mod s2) mod s2 = k mod s2" using m by simp
qed

lemma transpose_1_0_2_twice:
  assumes "shape a = [s0, s1, s2]" and "length (buffer a) = s0 * s1 * s2"
  shows "\<exists>t. transpose_1_0_2 a = Inr t \<and> shape t = [s1, s0, s2] \<and> transpose_1_0_2 t = Inr a"
proof -
  let ?f = "\<lambda>k. buffer a ! ((((k div s2) mod s0) * s1 + (k div s2) div s0) * s2 + k mod s2)"
  let ?t = "\<lparr>shape = [s1, s0, s2], buffer = map ?f [0..<s1 * s0 * s2]\<rparr>"
  let ?g = "\<lambda>k. buffer ?t ! ((((k div s2) mod s1) * s0 + (k div s2) div s1) * s2 + k mod s2)"
  have t: "transpose_1_0_2 a = Inr ?t" using assms(1) by (simp add: transpose_1_0_2_def)
  have "map ?g [0..<s0 * s1 * s2] = buffer a"
  proof (rule nth_equalityI)
    show "length (map ?g [0..<s0 * s1 * s2]) = length (buffer a)"
      using assms(2) by simp
  next
    fix k assume "k < length (map ?g [0..<s0 * s1 * s2])"
    then have k: "k < s0 * s1 * s2" by simp
    have s2: "0 < s2" using k by (cases s2) auto
    have q: "k div s2 < s0 * s1" using k s2 by (simp add: less_mult_imp_div_less)
    let ?q = "k div s2"
    have e1: "((?q div s1) * s1 + ?q mod s1) * s2 + k mod s2 = k" by simp
    have "map ?g [0..<s0 * s1 * s2] ! k = ?g k" using k by simp
    also have "\<dots> = ?f (((?q mod s1) * s0 + ?q div s1) * s2 + k mod s2)"
      using index_swap3(1) [OF k] by simp
    also have "\<dots> = buffer a ! (((?q div s1) * s1 + ?q mod s1) * s2 + k mod s2)"
      using index_swap3(2,3) [OF k] index_swap(2,3) [OF q] by simp
    also have "\<dots> = buffer a ! k" using e1 by simp
    finally show "map ?g [0..<s0 * s1 * s2] ! k = buffer a ! k" .
  qed
  then have "transpose_1_0_2 ?t = Inr a"
    using assms(1) by (simp add: transpose_1_0_2_def)
  with t show ?thesis by simp
qed

lemma shape_from_bin_counts:
  assumes "getitem (self_feature_groups self) g = Inr fs"
    and "list_all2 (\<lambda>f b. getitem (self_features_bin_count self) f = Inr b) fs bs"
  shows "get_feature_group_shape self g
           = Inr (rev bs @ (if 2 < self_n_classes self then [nat (self_n_classes self)] else []))"
proof -
  have "append_bin_counts (self_features_bin_count self) fs [] = Inr bs"
    using append_bin_counts_all2 [OF assms(2), of "[]"] by simp
  then show ?thesis
    using assms(1) by (simp add: get_feature_group_shape_def get_count_scores_c_def)
qed

lemma transpose_pair_twice:
  assumes g: "getitem (self_feature_groups self) g = Inr fs"
    and shp: "shape T = (if length fs = 2 then bs else rev bs) @
                         (if 2 < self_n_classes self then [nat (self_n_classes self)] else [])"
    and len: "length bs = length fs"
    and wf: "length (buffer T) = prod_list (shape T)"
  shows "\<exists>t. transpose_pair self g T = Inr t \<and>
           shape t = rev bs @ (if 2 < self_n_classes self then [nat (self_n_classes self)] else []) \<and>
           transpose_pair self g t = Inr T"
proof (cases "length fs = 2")
  case False
  then show ?thesis using g shp by (simp add: transpose_pair_def)
next
  case True
  then obtain b1 b2 where bs: "bs = [b1, b2]"
    using len by (cases bs; cases "tl bs"; cases "tl (tl bs)") auto
  show ?thesis
  proof (cases "2 < self_n_classes self")
    case True
    have s: "shape T = [b1, b2, nat (self_n_classes self)]"
      using shp bs \<open>length fs = 2\<close> True by simp
    have l: "length (buffer T) = b1 * b2 * nat (self_n_classes self)"
      using wf s by simp
    from transpose_1_0_2_twice [OF s l] show ?thesis
      using g \<open>length fs = 2\<close> True bs by (simp add: transpose_pair_def)
  next
    case False
    have s: "shape T = [b1, b2]"
      using shp bs \<open>length fs = 2\<close> False by simp
    have l: "length (buffer T) = b1 * b2"
      using wf s by simp
    from transpose_1_0_twice [OF s l] show ?thesis
      using g \<open>length fs = 2\<close> False bs by (simp add: transpose_pair_def)
  qed
qed

text \<open>
  C5, amended. In a session that is not a classification with \<open>n_classes \<le> 1\<close>, for a
  feature group \<open>g\<close> (an index from 0) with the members \<open>fs\<close> and their bin counts \<open>bs\<close>, and
  a tensor \<open>T\<close> of the caller-facing shape of \<open>g\<close> (the bin counts in the order of the group
  for a group of two features, in reverse order otherwise, then the axis of \<open>n_classes\<close>
  scores when \<open>n_classes > 2\<close>) whose buffer has the size of its shape: when the engine
  accepts the update and returns the buffer it was given, \<open>set_model_update_expanded(g, T)\<close>
  returns and \<open>get_model_update_expanded()\<close> after it returns \<open>T\<close>.
\<close>

theorem update_expanded_round_trip:
  assumes session: "\<not> (self_model_type self = ''classification'' \<and> self_n_classes self \<le> 1)"
    and g0: "0 \<le> g"
    and g: "getitem (self_feature_groups self) g = Inr fs"
    and bins: "list_all2 (\<lambda>f b. getitem (self_features_bin_count self) f = Inr b) fs bs"
    and shp: "shape T = (if length fs = 2 then bs else rev bs) @
                         (if 2 < self_n_classes self then [nat (self_n_classes self)] else [])"
    and wf: "length (buffer T) = prod_list (shape T)"
    and set_ok: "\<forall>buf. return_code (E (self_calls self) (SetModelUpdateExpanded g buf)) = 0"
    and get_ok: "\<forall>buf. return_code (E (self_calls self @ [SetModelUpdateExpanded g buf])
                                    GetModelUpdateExpanded) = 0 \<and>
                        out_tensor (E (self_calls self @ [SetModelUpdateExpanded g buf])
                                    GetModelUpdateExpanded) = buf"
  shows "fst (set_model_update_expanded E self g (Some T)) = Inr () \<and>
         fst (get_model_update_expanded E (snd (set_model_update_expanded E self g (Some T))))
           = Inr (Some T)"
proof -
  let ?tail = "if 2 < self_n_classes self then [nat (self_n_classes self)] else []"
  let ?self0 = "self\<lparr>self_feature_group_index := - 1\<rparr>"
  have len: "length bs = length fs" using bins by (simp add: list_all2_lengthD)
  have sh: "get_feature_group_shape self g = Inr (rev bs @ ?tail)"
    using shape_from_bin_counts [OF g bins] .
  have "get_feature_group_shape (self\<lparr>self_feature_group_index := i, self_calls := c\<rparr>) g
          = get_feature_group_shape self g" for i c
    by (simp add: get_feature_group_shape_def split: sum.splits)
  then have sh': "get_feature_group_shape (self\<lparr>self_feature_group_index := i, self_calls := c\<rparr>) g
               = Inr (rev bs @ ?tail)" for i c
    using sh by simp
  have "get_feature_group_shape ?self0 g = get_feature_group_shape self g"
    by (simp add: get_feature_group_shape_def split: sum.splits)
  then have sh0: "get_feature_group_shape ?self0 g = Inr (rev bs @ ?tail)"
    using sh by simp
  from transpose_pair_twice [OF g shp len wf] obtain t where
    t1: "transpose_pair self g T = Inr t" and t2: "shape t = rev bs @ ?tail"
    and t3: "transpose_pair self g t = Inr T"
    by blast
  have tp: "transpose_pair (self\<lparr>self_feature_group_index := i, self_calls := c\<rparr>) g x
              = transpose_pair self g x" for i c x
    by (simp add: transpose_pair_def)
  have tp0: "transpose_pair ?self0 g x = transpose_pair self g x" for x
    by (simp add: transpose_pair_def)
  let ?self1 = "self\<lparr>self_feature_group_index := g,
                      self_calls := self_calls self @ [SetModelUpdateExpanded g (buffer t)]\<rparr>"
  have set_eq: "set_model_update_expanded E self g (Some T) = (Inr (), ?self1)"
    using session g t1 t2 sh0 tp0 set_ok
    by (simp add: set_model_update_expanded_def unsafe_def Let_def)
  have t_eq: "\<lparr>shape = rev bs @ ?tail, buffer = buffer t\<rparr> = t"
    using t2 by simp
  have "get_model_update_expanded E ?self1 =
          (Inr (Some T), ?self1\<lparr>self_calls := self_calls ?self1 @ [GetModelUpdateExpanded]\<rparr>)"
    using session g0 sh' tp t3 t_eq get_ok
    by (simp add: get_model_update_expanded_def unsafe_def Let_def)
  with set_eq show ?thesis by simp
qed

text \<open>
  The pair group of bin counts 2 and 4: \<open>T\<close> of shape \<open>[2, 4]\<close> reaches the engine
  transposed and is read back as \<open>T\<close>.
\<close>

theorem update_expanded_round_trip_witness:
  "fst (get_model_update_expanded store_engine
          (snd (set_model_update_expanded store_engine (example_booster ''regression'' 0) 2
                  (Some T_ex)))) = Inr (Some T_ex) \<and>
   self_calls (snd (set_model_update_expanded store_engine (example_booster ''regression'' 0) 2
                  (Some T_ex)))
     = [SetModelUpdateExpanded 2 [1, 5, 2, 6, 3, 7, 4, 8]]"
proof -
  let ?b = "example_booster ''regression'' 0"
  have session: "\<not> (self_model_type ?b = ''classification'' \<and> self_n_classes ?b \<le> 1)"
    by (simp add: example_booster_def)
  have g0: "(0::int) \<le> 2" by simp
  have g: "getitem (self_feature_groups ?b) 2 = Inr [0, 1]"
    by (simp add: example_booster_def getitem_def)
  have bins: "list_all2 (\<lambda>f b. getitem (self_features_bin_count ?b) f = Inr b) [0, 1] [2, 4]"
    by (simp add: example_booster_def getitem_def)
  have shp: "shape T_ex = (if length [0, 1 :: int] = 2 then [2, 4] else rev [2, 4]) @
                         (if 2 < self_n_classes ?b then [nat (self_n_classes ?b)] else [])"
    by (simp add: T_ex_def example_booster_def)
  have wf: "length (buffer T_ex) = prod_list (shape T_ex)"
    by (simp add: T_ex_def)
  have set_ok: "\<forall>buf. return_code (store_engine (self_calls ?b) (SetModelUpdateExpanded 2 buf)) = 0"
    by (simp add: store_engine_def)
  have get_ok: "\<forall>buf. return_code (store_engine (self_calls ?b @ [SetModelUpdateExpanded 2 buf])
                                    GetModelUpdateExpanded) = 0 \<and>
                        out_tensor (store_engine (self_calls ?b @ [SetModelUpdateExpanded 2 buf])
                                    GetModelUpdateExpanded) = buf"
    by (simp add: store_engine_def)
  have u: "[0..<8] = [0, 1, 2, 3, 4, 5, 6, 7 :: nat]"
    by code_simp
  have c: "self_calls (snd (set_model_update_expanded store_engine ?b 2 (Some T_ex)))
     = [SetModelUpdateExpanded 2 [1, 5, 2, 6, 3, 7, 4, 8]]"
    by (simp add: set_model_update_expanded_def example_booster_def getitem_def
        transpose_pair_def transpose_1_0_def T_ex_def get_feature_group_shape_def
        get_count_scores_c_def unsafe_def store_engine_def u Let_def)
  show ?thesis
    using update_expanded_round_trip [OF session g0 g bins shp wf set_ok get_ok] c by simp
qed

text \<open>
  C5, as stated, fails in a classification session with one class: the group \<open>[0]\<close> has the
  shape \<open>[2]\<close>, and \<open>set_model_update_expanded\<close> refuses a tensor of that shape with
  ValueError, after which no update is staged and the reader raises RuntimeError.
\<close>

theorem update_expanded_round_trip_counterexample:
  "get_feature_group_shape (example_booster ''classification'' 1) 0 = Inr [2] \<and>
   fst (set_model_update_expanded store_engine (example_booster ''classification'' 1) 0
          (Some \<lparr>shape = [2], buffer = [5, 7]\<rparr>))
     = Inl (ValueError ''a tensor with 1 class or less would be empty since the predictions would always be the same'') \<and>
   fst (get_model_update_expanded store_engine
          (snd (set_model_update_expanded store_engine (example_booster ''classification'' 1) 0
                  (Some \<lparr>shape = [2], buffer = [5, 7]\<rparr>))))
     = Inl (RuntimeError ''invalid internal self._feature_group_index'')"
  by (simp add: set_model_update_expanded_def get_model_update_expanded_def example_booster_def
      get_feature_group_shape_def getitem_def get_count_scores_c_def Let_def)

section \<open>The minimum metric of a run\<close>


















section \<open>Early stopping\<close>






declare boost_rounds.simps(2) [simp del]









section \<open>The round count of a run\<close>

text \<open>
  C2 fails on the code. A run of \<open>max_rounds = 2\<close> rounds without early stopping
  (\<open>early_stopping_rounds = -1\<close>) over one feature group completes both rounds (two
  \<open>GenerateModelUpdate\<close>/\<open>ApplyModelUpdate\<close> pairs) and returns 1 as its third component:
  the index of the last round, not the number of rounds completed.
\<close>

theorem rounds_completed_failing_input:
  "fst (cyclic_gradient_boost (metric_engine metric_ex) ''regression'' 0 [0] [2] [[0]]
     X_ex y_ex w_ex None X_ex y_ex w_ex None 0 0 (1 / 100) 2 3 (- 1) (1 / 10000) 2 0 None)
     = Inr ([Some \<lparr>shape = [2], buffer = [0, 0]\<rparr>], Float 2, 1) \<and>
   snd (cyclic_gradient_boost (metric_engine metric_ex) ''regression'' 0 [0] [2] [[0]]
     X_ex y_ex w_ex None X_ex y_ex w_ex None 0 0 (1 / 100) 2 3 (- 1) (1 / 10000) 2 0 None)
     = [CreateRegressionBooster 0 1 [0] [2] 1 [1] [0]
         2 X_ex y_ex w_ex (np_zeros 2) 2 X_ex y_ex w_ex (np_zeros 2) 0 None,
       GenerateModelUpdate 0 0 (1 / 100) 2 [3], ApplyModelUpdate,
       GenerateModelUpdate 0 0 (1 / 100) 2 [3], ApplyModelUpdate,
       GetBestModelFeatureGroup 0, FreeBooster] \<and>
   (1 :: nat) \<noteq> 2"
  using two_round_run by simp

end
